theory Spec2Isabelle
  imports Main
begin

section \<open>The GCE instance task of kops (upup/pkg/fi/cloudup/gcetasks/instance.go)\<close>

text \<open>
  A shallow embedding of the instance task: the scope alias table, the URL helpers,
  \<open>Find\<close>, \<open>mapToGCE\<close>, \<open>isZero\<close>, \<open>RenderGCE\<close> and \<open>waitCompletion\<close>.
  Go strings are \<open>string\<close>; a Go pointer, a slice and a map that may be \<open>nil\<close> are
  options; a nil-pointer dereference, an index out of range and \<open>glog.Exitf\<close> are
  outcomes of their own, next to a returned value and a returned \<open>error\<close>.
\<close>

subsection \<open>Strings\<close>

text \<open>\<open>strings.Split(s, sep)\<close> for a one-byte separator: the pieces between the
  separators, \<open>[""]\<close> for the empty string.\<close>

fun Split :: "string \<Rightarrow> char \<Rightarrow> string list" where
  "Split [] sep = [[]]"
| "Split (c # cs) sep =
     (if c = sep then [] # Split cs sep
      else (case Split cs sep of
              [] \<Rightarrow> [[c]]
            | t # ts \<Rightarrow> (c # t) # ts))"

subsection \<open>Scope aliases\<close>

text \<open>\<open>expandScopeAlias\<close>: the \<open>switch\<close> of the source, case by case.\<close>

definition expandScopeAlias :: "string \<Rightarrow> string" where
  "expandScopeAlias s =
     (if s = ''storage-ro'' then ''https://www.googleapis.com/auth/devstorage.read_only''
      else if s = ''storage-rw'' then ''https://www.googleapis.com/auth/devstorage.read_write''
      else if s = ''compute-ro'' then ''https://www.googleapis.com/auth/compute.read_only''
      else if s = ''compute-rw'' then ''https://www.googleapis.com/auth/compute''
      else if s = ''monitoring'' then ''https://www.googleapis.com/auth/monitoring''
      else if s = ''monitoring-write'' then ''https://www.googleapis.com/auth/monitoring.write''
      else if s = ''logging-write'' then ''https://www.googleapis.com/auth/logging.write''
      else s)"

text \<open>The table \<open>scopeAliases\<close> that \<open>init\<close> builds. A Go map has no iteration order;
  the list gives one, and \<open>scopeToShortForm_range\<close> below takes any other.\<close>

definition scopeAliases :: "(string \<times> string) list" where
  "scopeAliases =
     [(''storage-ro'', ''https://www.googleapis.com/auth/devstorage.read_only''),
      (''storage-rw'', ''https://www.googleapis.com/auth/devstorage.read_write''),
      (''compute-ro'', ''https://www.googleapis.com/auth/compute.read_only''),
      (''compute-rw'', ''https://www.googleapis.com/auth/compute''),
      (''monitoring'', ''https://www.googleapis.com/auth/monitoring''),
      (''monitoring-write'', ''https://www.googleapis.com/auth/monitoring.write''),
      (''logging-write'', ''https://www.googleapis.com/auth/logging.write'')]"

definition scopeToLongForm :: "string \<Rightarrow> string" where
  "scopeToLongForm s = (case map_of scopeAliases s of Some e \<Rightarrow> e | None \<Rightarrow> s)"

text \<open>The loop of \<open>scopeToShortForm\<close> over the entries in the order the runtime
  happens to visit them: the first entry whose value is \<open>s\<close> gives its key.\<close>

fun scopeToShortForm_range :: "(string \<times> string) list \<Rightarrow> string \<Rightarrow> string" where
  "scopeToShortForm_range [] s = s"
| "scopeToShortForm_range ((k, v) # kvs) s =
     (if v = s then k else scopeToShortForm_range kvs s)"

definition scopeToShortForm :: "string \<Rightarrow> string" where
  "scopeToShortForm s = scopeToShortForm_range scopeAliases s"

subsection \<open>URLs\<close>

definition BuildMachineTypeURL :: "string \<Rightarrow> string \<Rightarrow> string \<Rightarrow> string" where
  "BuildMachineTypeURL project zone name =
     ''https://www.googleapis.com/compute/v1/projects/'' @ project @ ''/zones/'' @ zone
       @ ''/machineTypes/'' @ name"

text \<open>Modelled from the spec: \<open>lastComponent\<close> is not under src/. The spec derives zone
  and machine type "from the last path component of a canonical URL": the text after
  the last slash, the whole string when it has none.\<close>

definition lastComponent :: "string \<Rightarrow> string" where
  "lastComponent s = last (Split s CHR ''/'')"

record GoogleCloudURL =
  URL_Project :: string
  URL_Zone :: "string option"
  URL_Type :: string
  URL_Name :: string

subsection \<open>The task and the resources it refers to\<close>

text \<open>The sibling tasks are declared in other files; these are the fields this file
  reads. A Go pointer is an option, \<open>None\<close> for \<open>nil\<close>.\<close>

record Network =
  Network_Name :: "string option"

record Subnet =
  Subnet_Name :: "string option"

record IPAddress =
  IPAddress_Name :: "string option"
  Address :: "string option"

record PersistentDisk =
  PersistentDisk_Name :: "string option"

text \<open>Modelled from the spec: \<open>fi.Resource\<close>, \<open>fi.NewStringResource\<close> and
  \<open>fi.ResourceAsString\<close> are not under src/. A resource is "a lazily-rendered content
  source", and the mapping "fails if any content source cannot be rendered": a
  resource is a string that renders to itself, or a source whose rendering fails with
  the given message.\<close>

datatype Resource = NewStringResource string | UnrenderableResource string

fun ResourceAsString :: "Resource \<Rightarrow> string + string" where
  "ResourceAsString (NewStringResource v) = Inr v"
| "ResourceAsString (UnrenderableResource msg) = Inl msg"

text \<open>A slice and a map are options as well: \<open>None\<close> is the nil slice or map, which
  \<open>reflect.DeepEqual\<close> and the \<open>!= nil\<close> tests of the source tell from an empty one.
  A map is the list of its entries in the order \<open>range\<close> visits them.\<close>

record Instance =
  Name :: "string option"
  Network :: "Network option"
  Tags :: "string list option"
  Preemptible :: "bool option"
  Image :: "string option"
  Disks :: "(string \<times> PersistentDisk option) list option"
  CanIPForward :: "bool option"
  IPAddress :: "IPAddress option"
  Subnet :: "Subnet option"
  Scopes :: "string list option"
  Metadata :: "(string \<times> Resource) list option"
  Zone :: "string option"
  MachineType :: "string option"
  metadataFingerprint :: string

definition CompareWithID :: "Instance \<Rightarrow> string option" where
  "CompareWithID e = Name e"

subsection \<open>Errors and outcomes\<close>

text \<open>A failure of a backend call: the status code and the message of the reply.\<close>

datatype api_error = APIError int string

text \<open>One constructor for each \<open>fmt.Errorf\<close> of the source, with the values it formats,
  and one for each kind of error that comes from outside this file.\<close>

datatype error =
    APIFailure api_error
  | ResourceFailure string
  | InvalidGoogleCloudURL string
  | ErrorListingInstances error
  | ErrorQueryingForAddress string error
  | AddressNotFound string
  | DiskNotFound string error
  | ErrorQueryingForDisk string error
  | ErrorParsingSourceImageURL error
  | UnableToParseDiskSourceURL string
  | UnableToResolveIP error
  | IPAddressNotYetCreated
  | ErrorRenderingMetadata string error
  | ErrorCreatingInstance error
  | ErrorSettingMetadata error
  | CannotApplyChanges Instance
  | ErrorFetchingOperationStatus error
  | OperationFailed string

datatype panic = NilPointerDereference | IndexOutOfRange

text \<open>What a call of a Go function that returns \<open>(value, error)\<close> comes to: the value
  with a nil error, an error, a run-time panic, or the end of the process in
  \<open>glog.Exitf\<close>, with the value its message formats.\<close>

datatype 'a result = Ok 'a | Err error | Panic panic | Exit string

fun deref :: "'a option \<Rightarrow> 'a result" where
  "deref None = Panic NilPointerDereference"
| "deref (Some v) = Ok v"

fun andThen :: "'a result \<Rightarrow> ('a \<Rightarrow> 'b result) \<Rightarrow> 'b result" where
  "andThen (Ok v) f = f v"
| "andThen (Err e) f = Err e"
| "andThen (Panic p) f = Panic p"
| "andThen (Exit m) f = Exit m"

text \<open>Modelled from the spec: \<open>gce.ParseGoogleCloudURL\<close> is not under src/. The spec has it
  parse "a canonical URL into (project, name)", the canonical URLs being those the
  two builders template, of a zonal and of a global resource; anything else is a
  malformed identifier.\<close>

definition ParseGoogleCloudURL :: "string \<Rightarrow> GoogleCloudURL result" where
  "ParseGoogleCloudURL u =
     (case Split u CHR ''/'' of
        [scheme, blank, host, api, version, projects, project, zones, zone, type, name] \<Rightarrow>
          if [scheme, blank, host, api, version, projects, zones] =
             [''https:'', [], ''www.googleapis.com'', ''compute'', ''v1'', ''projects'', ''zones'']
          then Ok \<lparr>URL_Project = project, URL_Zone = Some zone, URL_Type = type, URL_Name = name\<rparr>
          else Err (InvalidGoogleCloudURL u)
      | [scheme, blank, host, api, version, projects, project, global, type, name] \<Rightarrow>
          if [scheme, blank, host, api, version, projects, global] =
             [''https:'', [], ''www.googleapis.com'', ''compute'', ''v1'', ''projects'', ''global'']
          then Ok \<lparr>URL_Project = project, URL_Zone = None, URL_Type = type, URL_Name = name\<rparr>
          else Err (InvalidGoogleCloudURL u)
      | _ \<Rightarrow> Err (InvalidGoogleCloudURL u))"

text \<open>\<open>BuildImageURL\<close>: a spec of neither one nor two tokens ends the process.\<close>

definition BuildImageURL :: "string \<Rightarrow> string \<Rightarrow> string result" where
  "BuildImageURL defaultProject nameSpec =
     (case Split nameSpec CHR ''/'' of
        [project, name] \<Rightarrow>
          Ok (''https://www.googleapis.com/compute/v1/projects/'' @ project
                @ ''/global/images/'' @ name)
      | [name] \<Rightarrow>
          Ok (''https://www.googleapis.com/compute/v1/projects/'' @ defaultProject
                @ ''/global/images/'' @ name)
      | _ \<Rightarrow> Exit nameSpec)"

definition ShortenImageURL :: "string \<Rightarrow> string \<Rightarrow> string result" where
  "ShortenImageURL defaultProject imageURL =
     (case ParseGoogleCloudURL imageURL of
        Ok u \<Rightarrow>
          if URL_Project u = defaultProject then Ok (URL_Name u)
          else Ok (URL_Project u @ ''/'' @ URL_Name u)
      | Err err \<Rightarrow> Err err
      | Panic p \<Rightarrow> Panic p
      | Exit m \<Rightarrow> Exit m)"

subsection \<open>The compute API\<close>

text \<open>The messages of \<open>google.golang.org/api/compute/v1\<close> with the fields this file
  reads or writes; a field the source leaves out of a literal has its zero value.\<close>

record compute_AttachedDiskInitializeParams =
  SourceImage :: string

record compute_AttachedDisk =
  InitializeParams :: "compute_AttachedDiskInitializeParams option"
  Boot :: bool
  DeviceName :: string
  Index :: int
  AutoDelete :: bool
  Mode :: string
  Type :: string
  Source :: string

record compute_AccessConfig =
  NatIP :: string
  AccessConfig_Type :: string

record compute_NetworkInterface =
  AccessConfigs :: "compute_AccessConfig list"
  NetworkInterface_Network :: string
  Subnetwork :: string

record compute_Scheduling =
  AutomaticRestart :: bool
  OnHostMaintenance :: string
  Scheduling_Preemptible :: bool

record compute_ServiceAccount =
  Email :: string
  ServiceAccount_Scopes :: "string list"

record compute_MetadataItems =
  Key :: string
  Value :: "string option"

record compute_Metadata =
  Items :: "compute_MetadataItems list"
  Fingerprint :: string

record compute_Tags =
  Tags_Items :: "string list"

record compute_Instance =
  CanIpForward :: bool
  gce_Disks :: "compute_AttachedDisk list"
  gce_MachineType :: string
  gce_Metadata :: "compute_Metadata option"
  gce_Name :: string
  NetworkInterfaces :: "compute_NetworkInterface list"
  Scheduling :: "compute_Scheduling option"
  ServiceAccounts :: "compute_ServiceAccount list"
  gce_Tags :: "compute_Tags option"
  gce_Zone :: string

record compute_OperationErrorErrors =
  Message :: string

record compute_Operation =
  Operation_Name :: string
  Operation_Zone :: string
  Status :: string
  Error :: "compute_OperationErrorErrors list option"
  Warnings :: "string list option"

record compute_Disk =
  Disk_SourceImage :: string

record compute_Address =
  Address_Name :: string

subsection \<open>The backend and the helpers of other packages\<close>

text \<open>\<open>gce.IsNotFound\<close>, \<open>(*Network).URL\<close> and \<open>(*PersistentDisk).URL\<close> are declared
  outside this file and are parameters here. A URL method is called on a pointer that
  may be nil; \<open>None\<close> is the call that panics.\<close>

record externals =
  IsNotFound :: "api_error \<Rightarrow> bool"
  Network_URL :: "Network option \<Rightarrow> string \<Rightarrow> string option"
  PersistentDisk_URL :: "PersistentDisk option \<Rightarrow> string \<Rightarrow> string option"

text \<open>The cloud handle: project, region, and what each call of the compute service
  answers, \<open>Inl\<close> for a failed call. The answer of \<open>ZoneOperations.Get\<close> changes with
  time: its first argument is the number of polls made before.\<close>

record GCECloud =
  Project :: string
  Region :: string
  Instances_Get :: "string \<Rightarrow> string \<Rightarrow> string \<Rightarrow> api_error + compute_Instance"
  Instances_Insert :: "string \<Rightarrow> string \<Rightarrow> compute_Instance \<Rightarrow> api_error + compute_Operation"
  Instances_SetMetadata ::
    "string \<Rightarrow> string \<Rightarrow> string \<Rightarrow> compute_Metadata \<Rightarrow> api_error + compute_Operation"
  Addresses_List :: "string \<Rightarrow> string \<Rightarrow> string \<Rightarrow> api_error + compute_Address list"
  Disks_Get :: "string \<Rightarrow> string \<Rightarrow> string \<Rightarrow> api_error + compute_Disk"
  ZoneOperations_Get :: "nat \<Rightarrow> string \<Rightarrow> string \<Rightarrow> string \<Rightarrow> api_error + compute_Operation"

text \<open>The calls a pass issues, in order.\<close>

datatype call =
    Insert string string compute_Instance
  | SetMetadata string string string compute_Metadata
  | ZoneOperationsGet string string string

subsection \<open>Slices and maps\<close>

text \<open>\<open>range\<close> over a nil slice or map visits nothing.\<close>

fun entries :: "'a list option \<Rightarrow> 'a list" where
  "entries None = []"
| "entries (Some xs) = xs"

text \<open>\<open>append(s, v)\<close> makes a nil slice non-nil.\<close>

fun append_go :: "'a list option \<Rightarrow> 'a \<Rightarrow> 'a list option" where
  "append_go s v = Some (entries s @ [v])"

text \<open>\<open>m[k] = v\<close> on a non-nil map.\<close>

fun mapAssign :: "('k \<times> 'v) list \<Rightarrow> 'k \<Rightarrow> 'v \<Rightarrow> ('k \<times> 'v) list" where
  "mapAssign [] k v = [(k, v)]"
| "mapAssign ((k', v') # m) k v =
     (if k' = k then (k, v) # m else (k', v') # mapAssign m k v)"

text \<open>The zero value \<open>&Instance{}\<close>.\<close>

definition zeroInstance :: Instance where
  "zeroInstance =
     \<lparr>Name = None, Network = None, Tags = None, Preemptible = None, Image = None,
      Disks = None, CanIPForward = None, IPAddress = None, Subnet = None, Scopes = None,
      Metadata = None, Zone = None, MachineType = None, metadataFingerprint = []\<rparr>"

subsection \<open>Find\<close>

text \<open>The tags and the scopes of the reply, appended one by one.\<close>

definition Find_tags :: "string list \<Rightarrow> string list option" where
  "Find_tags items = fold (\<lambda>tag tags. append_go tags tag) items None"

definition Find_scopes :: "compute_ServiceAccount list \<Rightarrow> string list option" where
  "Find_scopes serviceAccounts =
     fold (\<lambda>serviceAccount scopes.
             fold (\<lambda>scope scopes. append_go scopes (scopeToShortForm scope))
                  (ServiceAccount_Scopes serviceAccount) scopes)
          serviceAccounts None"

text \<open>The first network interface gives the network; its first access config, when it
  has a NAT address, the address resource that the backend lists under that address.\<close>

definition Find_network :: "GCECloud \<Rightarrow> compute_Instance \<Rightarrow> Instance \<Rightarrow> Instance result" where
  "Find_network cloud r actual =
     (case NetworkInterfaces r of
        [] \<Rightarrow> Ok actual
      | ni # _ \<Rightarrow>
          (let actual = actual\<lparr>Network :=
                 Some \<lparr>Network_Name = Some (lastComponent (NetworkInterface_Network ni))\<rparr>\<rparr>
           in case AccessConfigs ni of
                [] \<Rightarrow> Ok actual
              | ac # _ \<Rightarrow>
                  if NatIP ac \<noteq> [] then
                    (case Addresses_List cloud (Project cloud) (Region cloud)
                            (''address eq '' @ NatIP ac) of
                       Inl err \<Rightarrow> Err (ErrorQueryingForAddress (NatIP ac) (APIFailure err))
                     | Inr [] \<Rightarrow> Err (AddressNotFound (NatIP ac))
                     | Inr (addr # _) \<Rightarrow>
                         Ok (actual\<lparr>IPAddress :=
                               Some \<lparr>IPAddress_Name = Some (Address_Name addr), Address = None\<rparr>\<rparr>))
                  else Ok actual))"

text \<open>The loop over the attached disks of the reply, \<open>i\<close> the index of the next one:
  disk 0 gives the image, the others an entry of \<open>Disks\<close> under their device name.\<close>

fun Find_disks ::
  "externals \<Rightarrow> GCECloud \<Rightarrow> string \<Rightarrow> nat \<Rightarrow> compute_AttachedDisk list \<Rightarrow> Instance
     \<Rightarrow> Instance result" where
  "Find_disks x cloud zone i [] actual = Ok actual"
| "Find_disks x cloud zone i (disk # rest) actual =
     (if i = 0 then
        (let source = Source disk; name = lastComponent source
         in case Disks_Get cloud (Project cloud) zone name of
              Inl err \<Rightarrow>
                if IsNotFound x err then Err (DiskNotFound source (APIFailure err))
                else Err (ErrorQueryingForDisk source (APIFailure err))
            | Inr d \<Rightarrow>
                (case ShortenImageURL (Project cloud) (Disk_SourceImage d) of
                   Ok img \<Rightarrow>
                     Find_disks x cloud zone (Suc i) rest (actual\<lparr>Image := Some img\<rparr>)
                 | Err err \<Rightarrow> Err (ErrorParsingSourceImageURL err)
                 | Panic p \<Rightarrow> Panic p
                 | Exit m \<Rightarrow> Exit m))
      else
        (case ParseGoogleCloudURL (Source disk) of
           Ok url \<Rightarrow>
             Find_disks x cloud zone (Suc i) rest
               (actual\<lparr>Disks := Some (mapAssign (entries (Disks actual)) (DeviceName disk)
                                        (Some \<lparr>PersistentDisk_Name = Some (URL_Name url)\<rparr>))\<rparr>)
         | Err err \<Rightarrow> Err (UnableToParseDiskSourceURL (Source disk))
         | Panic p \<Rightarrow> Panic p
         | Exit m \<Rightarrow> Exit m))"

text \<open>The metadata items of the reply; an item with a nil value is skipped.\<close>

fun Find_metadata ::
  "compute_MetadataItems list \<Rightarrow> (string \<times> Resource) list \<Rightarrow> (string \<times> Resource) list" where
  "Find_metadata [] m = m"
| "Find_metadata (i # rest) m =
     (case Value i of
        None \<Rightarrow> Find_metadata rest m
      | Some v \<Rightarrow> Find_metadata rest (mapAssign m (Key i) (NewStringResource v)))"

text \<open>The fields that the reply gives as they are.\<close>

definition Find_fields :: "compute_Instance \<Rightarrow> compute_Tags \<Rightarrow> Instance" where
  "Find_fields r tags =
     (let actual = zeroInstance\<lparr>Name := Some (gce_Name r)\<rparr>;
          actual = actual\<lparr>Tags := Find_tags (Tags_Items tags)\<rparr>;
          actual = actual\<lparr>Zone := Some (lastComponent (gce_Zone r))\<rparr>;
          actual = actual\<lparr>MachineType := Some (lastComponent (gce_MachineType r))\<rparr>;
          actual = actual\<lparr>CanIPForward := Some (CanIpForward r)\<rparr>
      in case Scheduling r of
           None \<Rightarrow> actual
         | Some scheduling \<Rightarrow>
             actual\<lparr>Preemptible := Some (Scheduling_Preemptible scheduling)\<rparr>)"

definition Find :: "externals \<Rightarrow> GCECloud \<Rightarrow> Instance \<Rightarrow> Instance option result" where
  "Find x cloud e =
     andThen (deref (Zone e)) (\<lambda>zone.
     andThen (deref (Name e)) (\<lambda>name.
       case Instances_Get cloud (Project cloud) zone name of
         Inl err \<Rightarrow>
           if IsNotFound x err then Ok None
           else Err (ErrorListingInstances (APIFailure err))
       | Inr r \<Rightarrow>
           andThen (deref (gce_Tags r)) (\<lambda>tags.
           andThen (Find_network cloud r (Find_fields r tags)) (\<lambda>actual.
           let actual = actual\<lparr>Scopes := Find_scopes (ServiceAccounts r)\<rparr>;
               actual = actual\<lparr>Disks := Some []\<rparr>
           in
           andThen (Find_disks x cloud zone 0 (gce_Disks r) actual) (\<lambda>actual.
           let actual = (case gce_Metadata r of
                           None \<Rightarrow> actual
                         | Some metadata \<Rightarrow>
                             actual\<lparr>Metadata := Some (Find_metadata (Items metadata) []),
                                    metadataFingerprint := Fingerprint metadata\<rparr>)
           in Ok (Some actual))))))"

subsection \<open>mapToGCE\<close>

text \<open>Modelled from the spec: \<open>fi.BoolValue\<close> is not under src/. The scheduling block is
  "preemptible \<rightarrow> terminate-on-maintenance + no-auto-restart; else migrate": a flag
  that is not set is not preemptible.\<close>

fun BoolValue :: "bool option \<Rightarrow> bool" where
  "BoolValue None = False"
| "BoolValue (Some b) = b"

text \<open>The loop over \<open>e.Disks\<close>: one attached disk for each entry.\<close>

fun mapToGCE_disks ::
  "externals \<Rightarrow> string \<Rightarrow> (string \<times> PersistentDisk option) list \<Rightarrow> compute_AttachedDisk list
     \<Rightarrow> compute_AttachedDisk list result" where
  "mapToGCE_disks x project [] disks = Ok disks"
| "mapToGCE_disks x project ((name, disk) # rest) disks =
     (case PersistentDisk_URL x disk project of
        None \<Rightarrow> Panic NilPointerDereference
      | Some url \<Rightarrow>
          mapToGCE_disks x project rest
            (disks @ [\<lparr>InitializeParams = None, Boot = False, DeviceName = name, Index = 0,
                       AutoDelete = False, Mode = ''READ_WRITE'', Type = [], Source = url\<rparr>]))"

text \<open>The network interfaces: none without an IP address.\<close>

definition mapToGCE_networkInterfaces ::
  "externals \<Rightarrow> Instance \<Rightarrow> string \<Rightarrow> (IPAddress \<Rightarrow> string option result)
     \<Rightarrow> compute_NetworkInterface list result" where
  "mapToGCE_networkInterfaces x e project ipAddressResolver =
     (case IPAddress e of
        None \<Rightarrow> Ok []
      | Some ip \<Rightarrow>
          (case ipAddressResolver ip of
             Err err \<Rightarrow> Err (UnableToResolveIP err)
           | Panic p \<Rightarrow> Panic p
           | Exit m \<Rightarrow> Exit m
           | Ok None \<Rightarrow> Err IPAddressNotYetCreated
           | Ok (Some addr) \<Rightarrow>
               (case Network_URL x (Network e) project of
                  None \<Rightarrow> Panic NilPointerDereference
                | Some network \<Rightarrow>
                    (let networkInterface =
                       \<lparr>AccessConfigs = [\<lparr>NatIP = addr, AccessConfig_Type = ''ONE_TO_ONE_NAT''\<rparr>],
                        NetworkInterface_Network = network, Subnetwork = []\<rparr>
                     in case Subnet e of
                          None \<Rightarrow> Ok [networkInterface]
                        | Some subnet \<Rightarrow>
                            andThen (deref (Subnet_Name subnet)) (\<lambda>name.
                              Ok [networkInterface\<lparr>Subnetwork := name\<rparr>])))))"

text \<open>The loop over \<open>e.Metadata\<close>: the first entry that does not render ends it.\<close>

fun mapToGCE_metadataItems ::
  "(string \<times> Resource) list \<Rightarrow> compute_MetadataItems list \<Rightarrow> compute_MetadataItems list result"
  where
  "mapToGCE_metadataItems [] metadataItems = Ok metadataItems"
| "mapToGCE_metadataItems ((key, r) # rest) metadataItems =
     (case ResourceAsString r of
        Inl err \<Rightarrow> Err (ErrorRenderingMetadata key (ResourceFailure err))
      | Inr v \<Rightarrow>
          mapToGCE_metadataItems rest (metadataItems @ [\<lparr>Key = key, Value = Some v\<rparr>]))"

definition mapToGCE ::
  "externals \<Rightarrow> Instance \<Rightarrow> string \<Rightarrow> (IPAddress \<Rightarrow> string option result)
     \<Rightarrow> compute_Instance result" where
  "mapToGCE x e project ipAddressResolver =
     andThen (deref (Zone e)) (\<lambda>zone.
     let scheduling =
           (if BoolValue (Preemptible e)
            then \<lparr>AutomaticRestart = False, OnHostMaintenance = ''TERMINATE'',
                  Scheduling_Preemptible = True\<rparr>
            else \<lparr>AutomaticRestart = True, OnHostMaintenance = ''MIGRATE'',
                  Scheduling_Preemptible = False\<rparr>)
     in
     andThen (deref (Image e)) (\<lambda>img.
     andThen (BuildImageURL project img) (\<lambda>sourceImage.
     let disks =
           [\<lparr>InitializeParams = Some \<lparr>SourceImage = sourceImage\<rparr>, Boot = True,
             DeviceName = ''persistent-disks-0'', Index = 0, AutoDelete = True,
             Mode = ''READ_WRITE'', Type = ''PERSISTENT'', Source = []\<rparr>]
     in
     andThen (mapToGCE_disks x project (entries (Disks e)) disks) (\<lambda>disks.
     let tags = (case Tags e of None \<Rightarrow> None | Some items \<Rightarrow> Some \<lparr>Tags_Items = items\<rparr>)
     in
     andThen (mapToGCE_networkInterfaces x e project ipAddressResolver) (\<lambda>networkInterfaces.
     let serviceAccounts =
           (case Scopes e of
              None \<Rightarrow> []
            | Some scopes \<Rightarrow>
                [\<lparr>Email = ''default'', ServiceAccount_Scopes = map expandScopeAlias scopes\<rparr>])
     in
     andThen (mapToGCE_metadataItems (entries (Metadata e)) []) (\<lambda>metadataItems.
     andThen (deref (CanIPForward e)) (\<lambda>canIPForward.
     andThen (deref (MachineType e)) (\<lambda>machineType.
     andThen (deref (Name e)) (\<lambda>name.
       Ok \<lparr>CanIpForward = canIPForward,
           gce_Disks = disks,
           gce_MachineType = BuildMachineTypeURL project zone machineType,
           gce_Metadata = Some \<lparr>Items = metadataItems, Fingerprint = []\<rparr>,
           gce_Name = name,
           NetworkInterfaces = networkInterfaces,
           Scheduling = Some scheduling,
           ServiceAccounts = serviceAccounts,
           gce_Tags = tags,
           gce_Zone = []\<rparr>)))))))))"

subsection \<open>isZero\<close>

text \<open>\<open>reflect.DeepEqual\<close> with the zero value: every pointer, slice and map is nil and
  the fingerprint is empty. A pointer, slice or map that is not nil differs from a nil
  one, whatever it holds.\<close>

definition isZero :: "Instance \<Rightarrow> bool" where
  "isZero i = (zeroInstance = i)"

subsection \<open>waitCompletion\<close>

text \<open>The polling loop, \<open>n\<close> polls made before: it ends with a failed poll or with a
  status \<open>DONE\<close>, and goes on with any other status. It returns what ended it and the
  number of polls made. A loop that never ends is \<open>None\<close>.\<close>

partial_function (option) waitCompletion_loop ::
  "GCECloud \<Rightarrow> string \<Rightarrow> string \<Rightarrow> string \<Rightarrow> nat \<Rightarrow> ((api_error + compute_Operation) \<times> nat) option"
  where
  "waitCompletion_loop c project zone name n =
     (case ZoneOperations_Get c n project zone name of
        Inl err \<Rightarrow> Some (Inl err, Suc n)
      | Inr status \<Rightarrow>
          if Status status = ''DONE'' then Some (Inr status, Suc n)
          else waitCompletion_loop c project zone name (Suc n))"

definition waitCompletion ::
  "GCECloud \<Rightarrow> string \<Rightarrow> compute_Operation \<Rightarrow> (unit result \<times> call list) option" where
  "waitCompletion c project op =
     (let zone = lastComponent (Operation_Zone op)
      in case waitCompletion_loop c project zone (Operation_Name op) 0 of
           None \<Rightarrow> None
         | Some (polled, n) \<Rightarrow>
             Some (case polled of
                     Inl err \<Rightarrow> Err (ErrorFetchingOperationStatus (APIFailure err))
                   | Inr status \<Rightarrow>
                       (case Error status of
                          Some errors \<Rightarrow>
                            (case errors of
                               [] \<Rightarrow> Panic IndexOutOfRange
                             | e # _ \<Rightarrow> Err (OperationFailed (Message e)))
                        | None \<Rightarrow> Ok ()),
                   replicate n (ZoneOperationsGet project zone (Operation_Name op))))"

subsection \<open>RenderGCE\<close>

text \<open>A pass of \<open>RenderGCE\<close> gives how the call ended, the diff \<open>changes\<close> as the call
  left it, and the backend calls it issued; \<open>None\<close> is the pass that never returns.\<close>

definition RenderGCE ::
  "externals \<Rightarrow> GCECloud \<Rightarrow> Instance option \<Rightarrow> Instance \<Rightarrow> Instance
     \<Rightarrow> (unit result \<times> Instance \<times> call list) option" where
  "RenderGCE x cloud a e changes =
     (let project = Project cloud
      in case deref (Zone e) of
           Err err \<Rightarrow> Some (Err err, changes, [])
         | Panic p \<Rightarrow> Some (Panic p, changes, [])
         | Exit m \<Rightarrow> Some (Exit m, changes, [])
         | Ok zone \<Rightarrow>
      (case mapToGCE x e project (\<lambda>ip. Ok (Address ip)) of
           Err err \<Rightarrow> Some (Err err, changes, [])
         | Panic p \<Rightarrow> Some (Panic p, changes, [])
         | Exit m \<Rightarrow> Some (Exit m, changes, [])
         | Ok i \<Rightarrow>
      (case a of
         None \<Rightarrow>
           (case Instances_Insert cloud project zone i of
              Inl err \<Rightarrow>
                Some (Err (ErrorCreatingInstance (APIFailure err)), changes,
                      [Insert project zone i])
            | Inr _ \<Rightarrow> Some (Ok (), changes, [Insert project zone i]))
       | Some a \<Rightarrow>
           (case (case Metadata changes of
                    None \<Rightarrow> Some (Ok (), changes, [])
                  | Some _ \<Rightarrow>
                      (case gce_Metadata i of
                         None \<Rightarrow> Some (Panic NilPointerDereference, changes, [])
                       | Some metadata \<Rightarrow>
                           (let metadata = metadata\<lparr>Fingerprint := metadataFingerprint a\<rparr>;
                                issued = [SetMetadata project zone (gce_Name i) metadata]
                            in case Instances_SetMetadata cloud project zone (gce_Name i)
                                      metadata of
                                 Inl err \<Rightarrow>
                                   Some (Err (ErrorSettingMetadata (APIFailure err)), changes,
                                         issued)
                               | Inr op \<Rightarrow>
                                   (case waitCompletion cloud project op of
                                      None \<Rightarrow> None
                                    | Some (Ok _, polls) \<Rightarrow>
                                        Some (Ok (), changes\<lparr>Metadata := None\<rparr>,
                                              issued @ polls)
                                    | Some (Err err, polls) \<Rightarrow>
                                        Some (Err (ErrorSettingMetadata err), changes,
                                              issued @ polls)
                                    | Some (Panic p, polls) \<Rightarrow>
                                        Some (Panic p, changes, issued @ polls)
                                    | Some (Exit m, polls) \<Rightarrow>
                                        Some (Exit m, changes, issued @ polls))))) of
              None \<Rightarrow> None
            | Some (Ok _, changes, issued) \<Rightarrow>
                if \<not> isZero changes then Some (Err (CannotApplyChanges changes), changes, issued)
                else Some (Ok (), changes, issued)
            | Some (ended, changes, issued) \<Rightarrow> Some (ended, changes, issued)))))"

subsection \<open>Example values\<close>

text \<open>A backend, a desired master instance and what the backend holds of it, for the
  concrete instances of the theorems below.\<close>

definition example_externals :: externals where
  "example_externals =
     \<lparr>IsNotFound = (\<lambda>err. case err of APIError code message \<Rightarrow> code = 404),
      Network_URL = (\<lambda>network project.
        case network of
          None \<Rightarrow> None
        | Some n \<Rightarrow>
            (case Network_Name n of
               None \<Rightarrow> None
             | Some name \<Rightarrow> Some (''projects/'' @ project @ ''/global/networks/'' @ name))),
      PersistentDisk_URL = (\<lambda>disk project.
        case disk of
          None \<Rightarrow> None
        | Some d \<Rightarrow>
            (case PersistentDisk_Name d of
               None \<Rightarrow> None
             | Some name \<Rightarrow> Some (''projects/'' @ project @ ''/disks/'' @ name)))\<rparr>"

definition example_desired :: Instance where
  "example_desired =
     \<lparr>Name = Some ''master'',
      Network = Some \<lparr>Network_Name = Some ''default''\<rparr>,
      Tags = Some [''kubernetes''],
      Preemptible = None,
      Image = Some ''debian-8'',
      Disks = Some [(''etcd'', Some \<lparr>PersistentDisk_Name = Some ''master-etcd''\<rparr>)],
      CanIPForward = Some True,
      IPAddress = None,
      Subnet = None,
      Scopes = Some [''compute-rw''],
      Metadata = Some [(''role'', NewStringResource ''master'')],
      Zone = Some ''us-east1-b'',
      MachineType = Some ''n1-standard-1'',
      metadataFingerprint = []\<rparr>"

definition example_payload :: compute_Instance where
  "example_payload =
     \<lparr>CanIpForward = True,
      gce_Disks =
        [\<lparr>InitializeParams = Some \<lparr>SourceImage =
            ''https://www.googleapis.com/compute/v1/projects/proj/global/images/debian-8''\<rparr>,
          Boot = True, DeviceName = ''persistent-disks-0'', Index = 0, AutoDelete = True,
          Mode = ''READ_WRITE'', Type = ''PERSISTENT'', Source = []\<rparr>,
         \<lparr>InitializeParams = None, Boot = False, DeviceName = ''etcd'', Index = 0,
          AutoDelete = False, Mode = ''READ_WRITE'', Type = [],
          Source = ''projects/proj/disks/master-etcd''\<rparr>],
      gce_MachineType =
        ''https://www.googleapis.com/compute/v1/projects/proj/zones/us-east1-b/machineTypes/n1-standard-1'',
      gce_Metadata = Some \<lparr>Items = [\<lparr>Key = ''role'', Value = Some ''master''\<rparr>], Fingerprint = []\<rparr>,
      gce_Name = ''master'',
      NetworkInterfaces = [],
      Scheduling = Some \<lparr>AutomaticRestart = True, OnHostMaintenance = ''MIGRATE'',
                          Scheduling_Preemptible = False\<rparr>,
      ServiceAccounts = [\<lparr>Email = ''default'',
                           ServiceAccount_Scopes = [''https://www.googleapis.com/auth/compute'']\<rparr>],
      gce_Tags = Some \<lparr>Tags_Items = [''kubernetes'']\<rparr>,
      gce_Zone = []\<rparr>"

definition example_reply :: compute_Instance where
  "example_reply =
     \<lparr>CanIpForward = True,
      gce_Disks = [],
      gce_MachineType = ''n1-standard-1'',
      gce_Metadata = Some \<lparr>Items = [\<lparr>Key = ''role'', Value = Some ''node''\<rparr>], Fingerprint = ''f1''\<rparr>,
      gce_Name = ''master'',
      NetworkInterfaces = [],
      Scheduling = None,
      ServiceAccounts = [],
      gce_Tags = Some \<lparr>Tags_Items = [''kubernetes'']\<rparr>,
      gce_Zone = ''us-east1-b''\<rparr>"

definition example_actual :: Instance where
  "example_actual =
     \<lparr>Name = Some ''master'',
      Network = None,
      Tags = Some [''kubernetes''],
      Preemptible = None,
      Image = None,
      Disks = Some [],
      CanIPForward = Some True,
      IPAddress = None,
      Subnet = None,
      Scopes = None,
      Metadata = Some [(''role'', NewStringResource ''node'')],
      Zone = Some ''us-east1-b'',
      MachineType = Some ''n1-standard-1'',
      metadataFingerprint = ''f1''\<rparr>"

definition example_operation :: compute_Operation where
  "example_operation =
     \<lparr>Operation_Name = ''operation-1'', Operation_Zone = ''us-east1-b'', Status = ''PENDING'',
      Error = None, Warnings = None\<rparr>"

text \<open>The backend knows the instance \<open>master\<close> only; an operation is running at the
  first two polls and done at the third.\<close>

definition example_cloud :: GCECloud where
  "example_cloud =
     \<lparr>Project = ''proj'',
      Region = ''us-east1'',
      Instances_Get = (\<lambda>project zone name.
        if name = ''master'' then Inr example_reply else Inl (APIError 404 ''not found'')),
      Instances_Insert = (\<lambda>project zone i. Inr example_operation),
      Instances_SetMetadata = (\<lambda>project zone name metadata. Inr example_operation),
      Addresses_List = (\<lambda>project region filter. Inr []),
      Disks_Get = (\<lambda>project zone name. Inl (APIError 404 ''not found'')),
      ZoneOperations_Get = (\<lambda>n project zone name.
        Inr (example_operation\<lparr>Status := (if n < 2 then ''RUNNING'' else ''DONE'')\<rparr>))\<rparr>"

text \<open>The same backend with an operation that is done at once and carries an error
  record with no entry.\<close>

definition example_cloud_no_entry :: GCECloud where
  "example_cloud_no_entry =
     example_cloud\<lparr>ZoneOperations_Get := (\<lambda>n project zone name.
        Inr (example_operation\<lparr>Status := ''DONE'', Error := Some []\<rparr>))\<rparr>"

text \<open>A diff with a metadata change only, and one that changes the tags as well.\<close>

definition example_changes_metadata :: Instance where
  "example_changes_metadata =
     zeroInstance\<lparr>Metadata := Some [(''role'', NewStringResource ''master'')]\<rparr>"

definition example_changes_tags :: Instance where
  "example_changes_tags = example_changes_metadata\<lparr>Tags := Some [''kubernetes'', ''etcd'']\<rparr>"



section \<open>Properties\<close>

subsection \<open>Outcomes\<close>

lemma andThen_Ok_iff: "andThen r f = Ok v \<longleftrightarrow> (\<exists>a. r = Ok a \<and> f a = Ok v)"
  by (cases r) auto

lemma deref_Ok_iff: "deref p = Ok v \<longleftrightarrow> p = Some v"
  by (cases p) auto

subsection \<open>Scope aliases\<close>

lemma scopeToShortForm_range_miss:
  "s \<notin> snd ` set kvs \<Longrightarrow> scopeToShortForm_range kvs s = s"
  by (induction kvs) auto

lemma scopeToShortForm_range_hit:
  "distinct (map snd kvs) \<Longrightarrow> (k, s) \<in> set kvs \<Longrightarrow> scopeToShortForm_range kvs s = k"
  by (induction kvs) force+

lemma scopeAliases_values_distinct: "distinct (map snd scopeAliases)"
  by (simp add: scopeAliases_def)

lemma length_scopeAliases: "length scopeAliases = 7"
  by (simp add: scopeAliases_def)

lemma expandScopeAlias_table: "expandScopeAlias s = scopeToLongForm s"
  by (simp add: expandScopeAlias_def scopeToLongForm_def scopeAliases_def)

lemma scopeToShortForm_any_order:
  assumes "distinct kvs" and "set kvs = set scopeAliases"
  shows "scopeToShortForm_range kvs s = scopeToShortForm s"
proof -
  have inj: "inj_on snd (set scopeAliases)"
    using scopeAliases_values_distinct by (simp add: distinct_map)
  have d: "distinct (map snd kvs)"
    using assms inj by (simp add: distinct_map)
  show ?thesis
  proof (cases "s \<in> snd ` set kvs")
    case True
    then obtain k where k: "(k, s) \<in> set kvs" by auto
    have "scopeToShortForm_range kvs s = k"
      by (rule scopeToShortForm_range_hit [OF d k])
    moreover have "scopeToShortForm_range scopeAliases s = k"
      using k assms(2) by (intro scopeToShortForm_range_hit [OF scopeAliases_values_distinct]) simp
    ultimately show ?thesis by (simp add: scopeToShortForm_def)
  next
    case False
    then show ?thesis
      using assms(2) by (simp add: scopeToShortForm_def scopeToShortForm_range_miss)
  qed
qed

text \<open>
  Claim C5. For each of the seven entries \<open>(alias, URI)\<close> of the table, shortening the
  expansion of the alias gives the alias back and expanding the shortening of the URI
  gives the URI back; a string that is neither an alias nor a URI of the table passes
  through \<open>expandScopeAlias\<close> and \<open>scopeToShortForm\<close> unchanged.
\<close>

theorem scope_alias_round_trips:
  "(\<forall>(a, u) \<in> set scopeAliases.
       scopeToShortForm (expandScopeAlias a) = a \<and> expandScopeAlias (scopeToShortForm u) = u)
   \<and> (\<forall>s. s \<notin> fst ` set scopeAliases \<and> s \<notin> snd ` set scopeAliases
         \<longrightarrow> expandScopeAlias s = s \<and> scopeToShortForm s = s)"
proof (intro conjI allI impI)
  show "\<forall>(a, u) \<in> set scopeAliases.
       scopeToShortForm (expandScopeAlias a) = a \<and> expandScopeAlias (scopeToShortForm u) = u"
    by (simp add: scopeAliases_def expandScopeAlias_def scopeToShortForm_def)
next
  fix s assume s: "s \<notin> fst ` set scopeAliases \<and> s \<notin> snd ` set scopeAliases"
  then show "expandScopeAlias s = s"
    by (simp add: scopeAliases_def expandScopeAlias_def)
  from s show "scopeToShortForm s = s"
    by (simp add: scopeToShortForm_def scopeToShortForm_range_miss)
qed

theorem scope_alias_round_trips_witness:
  "(''compute-rw'', ''https://www.googleapis.com/auth/compute'') \<in> set scopeAliases
   \<and> scopeToShortForm (expandScopeAlias ''compute-rw'') = ''compute-rw''
   \<and> expandScopeAlias (scopeToShortForm ''https://www.googleapis.com/auth/compute'')
       = ''https://www.googleapis.com/auth/compute''
   \<and> ''cloud-platform'' \<notin> fst ` set scopeAliases \<and> ''cloud-platform'' \<notin> snd ` set scopeAliases
   \<and> expandScopeAlias ''cloud-platform'' = ''cloud-platform''
   \<and> scopeToShortForm ''cloud-platform'' = ''cloud-platform''"
proof -
  have m: "(''compute-rw'', ''https://www.googleapis.com/auth/compute'') \<in> set scopeAliases"
    by (simp add: scopeAliases_def)
  have u: "''cloud-platform'' \<notin> fst ` set scopeAliases \<and> ''cloud-platform'' \<notin> snd ` set scopeAliases"
    by (simp add: scopeAliases_def)
  from scope_alias_round_trips m u show ?thesis by blast
qed

subsection \<open>URLs\<close>

lemma Split_append_sep:
  "sep \<notin> set a \<Longrightarrow> Split (a @ sep # b) sep = a # Split b sep"
  by (induction a) auto

lemma Split_no_sep: "sep \<notin> set a \<Longrightarrow> Split a sep = [a]"
  by (induction a) auto

lemma Split_machine_type_url:
  assumes "CHR ''/'' \<notin> set p" "CHR ''/'' \<notin> set z" "CHR ''/'' \<notin> set n"
  shows "Split (BuildMachineTypeURL p z n) CHR ''/'' =
    [''https:'', [], ''www.googleapis.com'', ''compute'', ''v1'', ''projects'', p,
     ''zones'', z, ''machineTypes'', n]"
  using assms by (simp add: BuildMachineTypeURL_def Split_append_sep Split_no_sep)

lemma Split_image_url:
  assumes "CHR ''/'' \<notin> set p" "CHR ''/'' \<notin> set n"
  shows "Split (''https://www.googleapis.com/compute/v1/projects/'' @ p @ ''/global/images/'' @ n)
           CHR ''/'' =
    [''https:'', [], ''www.googleapis.com'', ''compute'', ''v1'', ''projects'', p,
     ''global'', ''images'', n]"
  using assms by (simp add: Split_append_sep Split_no_sep)

lemma Parse_machine_type_url:
  assumes "CHR ''/'' \<notin> set p" "CHR ''/'' \<notin> set z" "CHR ''/'' \<notin> set n"
  shows "ParseGoogleCloudURL (BuildMachineTypeURL p z n) =
     Ok \<lparr>URL_Project = p, URL_Zone = Some z, URL_Type = ''machineTypes'', URL_Name = n\<rparr>"
  by (simp add: ParseGoogleCloudURL_def Split_machine_type_url [OF assms])

lemma Parse_image_url:
  assumes "CHR ''/'' \<notin> set p" "CHR ''/'' \<notin> set n"
  shows "ParseGoogleCloudURL
      (''https://www.googleapis.com/compute/v1/projects/'' @ p @ ''/global/images/'' @ n) =
     Ok \<lparr>URL_Project = p, URL_Zone = None, URL_Type = ''images'', URL_Name = n\<rparr>"
  by (simp only: ParseGoogleCloudURL_def Split_image_url [OF assms]) simp

lemma BuildImageURL_bare:
  "CHR ''/'' \<notin> set n \<Longrightarrow> BuildImageURL p n =
     Ok (''https://www.googleapis.com/compute/v1/projects/'' @ p @ ''/global/images/'' @ n)"
  by (simp add: BuildImageURL_def Split_no_sep)

lemma BuildImageURL_qualified:
  "CHR ''/'' \<notin> set p1 \<Longrightarrow> CHR ''/'' \<notin> set n \<Longrightarrow> BuildImageURL p2 (p1 @ ''/'' @ n) =
     Ok (''https://www.googleapis.com/compute/v1/projects/'' @ p1 @ ''/global/images/'' @ n)"
  by (simp add: BuildImageURL_def Split_no_sep Split_append_sep)

text \<open>
  Claim C6. For a project, a zone and a name that are single path components (they hold
  no slash), parsing the URL that \<open>BuildMachineTypeURL\<close> builds gives the name back;
  shortening, against the default project, the URL that \<open>BuildImageURL\<close> builds from a
  bare image name gives the bare name; and shortening the URL built from a spec
  \<open>p1/n\<close> against a default project other than \<open>p1\<close> gives \<open>p1/n\<close>.
\<close>

theorem url_round_trips:
  assumes p: "CHR ''/'' \<notin> set p" and z: "CHR ''/'' \<notin> set z" and n: "CHR ''/'' \<notin> set n"
    and p1: "CHR ''/'' \<notin> set p1" and diff: "p1 \<noteq> p2"
  shows "andThen (ParseGoogleCloudURL (BuildMachineTypeURL p z n)) (\<lambda>u. Ok (URL_Name u)) = Ok n
     \<and> andThen (BuildImageURL p n) (ShortenImageURL p) = Ok n
     \<and> andThen (BuildImageURL p2 (p1 @ ''/'' @ n)) (ShortenImageURL p2) = Ok (p1 @ ''/'' @ n)"
proof (intro conjI)
  show "andThen (ParseGoogleCloudURL (BuildMachineTypeURL p z n)) (\<lambda>u. Ok (URL_Name u)) = Ok n"
    by (simp add: Parse_machine_type_url [OF p z n])
  show "andThen (BuildImageURL p n) (ShortenImageURL p) = Ok n"
    by (simp only: BuildImageURL_bare [OF n] andThen.simps ShortenImageURL_def
          Parse_image_url [OF p n]) simp
  show "andThen (BuildImageURL p2 (p1 @ ''/'' @ n)) (ShortenImageURL p2) = Ok (p1 @ ''/'' @ n)"
    using diff
    by (simp only: BuildImageURL_qualified [OF p1 n] andThen.simps ShortenImageURL_def
          Parse_image_url [OF p1 n]) simp
qed

theorem url_round_trips_witness:
  "andThen (ParseGoogleCloudURL (BuildMachineTypeURL ''proj'' ''us-east1-b'' ''n1-standard-1''))
     (\<lambda>u. Ok (URL_Name u)) = Ok ''n1-standard-1''
   \<and> andThen (BuildImageURL ''proj'' ''debian-8'') (ShortenImageURL ''proj'') = Ok ''debian-8''
   \<and> andThen (BuildImageURL ''proj'' ''debian-cloud/debian-8'') (ShortenImageURL ''proj'')
       = Ok ''debian-cloud/debian-8''"
proof -
  have p: "CHR ''/'' \<notin> set ''proj''" and z: "CHR ''/'' \<notin> set ''us-east1-b''"
    and m: "CHR ''/'' \<notin> set ''n1-standard-1''" and n: "CHR ''/'' \<notin> set ''debian-8''"
    and p1: "CHR ''/'' \<notin> set ''debian-cloud''" and diff: "''debian-cloud'' \<noteq> ''proj''"
    by simp_all
  from url_round_trips [OF p z m p1 diff] url_round_trips [OF p z n p1 diff]
  show ?thesis by simp
qed

subsection \<open>isZero\<close>

text \<open>
  Claim C8. \<open>isZero\<close> holds of the freshly constructed empty diff, and fails as soon as
  one field, whichever it is, is set: a pointer, a slice or a map that is not nil (be
  it empty), or a fingerprint that is not the empty string.
\<close>

theorem isZero_single_field:
  "isZero zeroInstance
   \<and> \<not> isZero (zeroInstance\<lparr>Name := Some name\<rparr>)
   \<and> \<not> isZero (zeroInstance\<lparr>Network := Some network\<rparr>)
   \<and> \<not> isZero (zeroInstance\<lparr>Tags := Some tags\<rparr>)
   \<and> \<not> isZero (zeroInstance\<lparr>Preemptible := Some preemptible\<rparr>)
   \<and> \<not> isZero (zeroInstance\<lparr>Image := Some img\<rparr>)
   \<and> \<not> isZero (zeroInstance\<lparr>Disks := Some disks\<rparr>)
   \<and> \<not> isZero (zeroInstance\<lparr>CanIPForward := Some canIPForward\<rparr>)
   \<and> \<not> isZero (zeroInstance\<lparr>IPAddress := Some ipAddress\<rparr>)
   \<and> \<not> isZero (zeroInstance\<lparr>Subnet := Some subnet\<rparr>)
   \<and> \<not> isZero (zeroInstance\<lparr>Scopes := Some scopes\<rparr>)
   \<and> \<not> isZero (zeroInstance\<lparr>Metadata := Some metadata\<rparr>)
   \<and> \<not> isZero (zeroInstance\<lparr>Zone := Some zone\<rparr>)
   \<and> \<not> isZero (zeroInstance\<lparr>MachineType := Some machineType\<rparr>)
   \<and> \<not> isZero (zeroInstance\<lparr>metadataFingerprint := c # fingerprint\<rparr>)"
  by (simp add: isZero_def zeroInstance_def)

lemma isZero_iff:
  "isZero i \<longleftrightarrow>
     Name i = None \<and> Network i = None \<and> Tags i = None \<and> Preemptible i = None
     \<and> Image i = None \<and> Disks i = None \<and> CanIPForward i = None \<and> IPAddress i = None
     \<and> Subnet i = None \<and> Scopes i = None \<and> Metadata i = None \<and> Zone i = None
     \<and> MachineType i = None \<and> metadataFingerprint i = []"
  by (cases i) (auto simp add: isZero_def zeroInstance_def)

subsection \<open>Find\<close>

text \<open>
  Claim C7. For an identity (\<open>Name\<close>, \<open>Zone\<close>) whose get fails, \<open>Find\<close> returns
  \<open>(nil, nil)\<close> when the backend reports the instance as not found, and returns the
  failure, wrapped as an error, when it is any other failure.
\<close>

theorem Find_not_found:
  assumes "Zone e = Some zone" and "Name e = Some name"
    and "Instances_Get cloud (Project cloud) zone name = Inl err"
  shows "Find x cloud e =
     (if IsNotFound x err then Ok None else Err (ErrorListingInstances (APIFailure err)))"
  using assms by (simp add: Find_def)

theorem Find_not_found_witness:
  "Find example_externals example_cloud
     (zeroInstance\<lparr>Name := Some ''node-1'', Zone := Some ''us-east1-b''\<rparr>) = Ok None
   \<and> Find example_externals
        (example_cloud\<lparr>Instances_Get := (\<lambda>project zone name. Inl (APIError 500 ''backend error''))\<rparr>)
        (zeroInstance\<lparr>Name := Some ''node-1'', Zone := Some ''us-east1-b''\<rparr>)
      = Err (ErrorListingInstances (APIFailure (APIError 500 ''backend error'')))"
  using Find_not_found [of "zeroInstance\<lparr>Name := Some ''node-1'', Zone := Some ''us-east1-b''\<rparr>"
      "''us-east1-b''" "''node-1''" example_cloud "APIError 404 ''not found''" example_externals]
    Find_not_found [of "zeroInstance\<lparr>Name := Some ''node-1'', Zone := Some ''us-east1-b''\<rparr>"
      "''us-east1-b''" "''node-1''"
      "example_cloud\<lparr>Instances_Get := (\<lambda>project zone name. Inl (APIError 500 ''backend error''))\<rparr>"
      "APIError 500 ''backend error''" example_externals]
  by (simp add: example_cloud_def example_externals_def)





subsection \<open>waitCompletion\<close>

lemma waitCompletion_loop_ends:
  assumes "\<forall>j<k. \<exists>st. ZoneOperations_Get c (n + j) project zone name = Inr st
              \<and> Status st \<noteq> ''DONE''"
    and "ZoneOperations_Get c (n + k) project zone name = r"
    and "case r of Inl err \<Rightarrow> True | Inr st \<Rightarrow> Status st = ''DONE''"
  shows "waitCompletion_loop c project zone name n = Some (r, Suc (n + k))"
  using assms
proof (induction k arbitrary: n)
  case 0
  then show ?case
    by (subst waitCompletion_loop.simps) (auto split: sum.splits)
next
  case (Suc k)
  have "(0::nat) < Suc k" by simp
  with Suc.prems(1) have "\<exists>st. ZoneOperations_Get c (n + 0) project zone name = Inr st
              \<and> Status st \<noteq> ''DONE''" by blast
  then obtain st where st:
    "ZoneOperations_Get c n project zone name = Inr st" "Status st \<noteq> ''DONE''"
    by auto
  have "\<forall>j<k. \<exists>st. ZoneOperations_Get c (Suc n + j) project zone name = Inr st
              \<and> Status st \<noteq> ''DONE''"
  proof (intro allI impI)
    fix j assume "j < k"
    then have "Suc j < Suc k" by simp
    with Suc.prems(1) have "\<exists>st. ZoneOperations_Get c (n + Suc j) project zone name = Inr st
              \<and> Status st \<noteq> ''DONE''" by blast
    then show "\<exists>st. ZoneOperations_Get c (Suc n + j) project zone name = Inr st
              \<and> Status st \<noteq> ''DONE''" by simp
  qed
  moreover have "ZoneOperations_Get c (Suc n + k) project zone name = r"
    using Suc.prems(2) by simp
  ultimately have "waitCompletion_loop c project zone name (Suc n) = Some (r, Suc (Suc n + k))"
    using Suc.prems(3) by (rule Suc.IH)
  then show ?case
    using st by (subst waitCompletion_loop.simps) simp
qed




lemma waitCompletion_ends:
  assumes "\<forall>j<k. \<exists>st. ZoneOperations_Get c j project (lastComponent (Operation_Zone op))
                        (Operation_Name op) = Inr st \<and> Status st \<noteq> ''DONE''"
    and "ZoneOperations_Get c k project (lastComponent (Operation_Zone op)) (Operation_Name op)
           = r"
    and "case r of Inl err \<Rightarrow> True | Inr st \<Rightarrow> Status st = ''DONE''"
  shows "waitCompletion c project op =
     Some (case r of
             Inl err \<Rightarrow> Err (ErrorFetchingOperationStatus (APIFailure err))
           | Inr status \<Rightarrow>
               (case Error status of
                  Some errors \<Rightarrow>
                    (case errors of
                       [] \<Rightarrow> Panic IndexOutOfRange
                     | e # _ \<Rightarrow> Err (OperationFailed (Message e)))
                | None \<Rightarrow> Ok ()),
           replicate (Suc k)
             (ZoneOperationsGet project (lastComponent (Operation_Zone op)) (Operation_Name op)))"
proof -
  have "waitCompletion_loop c project (lastComponent (Operation_Zone op)) (Operation_Name op) 0
          = Some (r, Suc (0 + k))"
    using assms by (intro waitCompletion_loop_ends) simp_all
  then show ?thesis by (simp add: waitCompletion_def Let_def)
qed



lemma waitCompletion_terminal:
  assumes "\<forall>j<k. \<exists>st. ZoneOperations_Get c j project (lastComponent (Operation_Zone op))
                        (Operation_Name op) = Inr st \<and> Status st \<noteq> ''DONE''"
    and "ZoneOperations_Get c k project (lastComponent (Operation_Zone op)) (Operation_Name op)
           = Inr status"
    and "Status status = ''DONE''"
  shows "(Error status = None \<longrightarrow>
            waitCompletion c project op =
              Some (Ok (), replicate (Suc k)
                (ZoneOperationsGet project (lastComponent (Operation_Zone op)) (Operation_Name op))))
       \<and> (\<forall>e errors. Error status = Some (e # errors) \<longrightarrow>
            waitCompletion c project op =
              Some (Err (OperationFailed (Message e)), replicate (Suc k)
                (ZoneOperationsGet project (lastComponent (Operation_Zone op)) (Operation_Name op))))
       \<and> (Error status = Some [] \<longrightarrow>
            waitCompletion c project op =
              Some (Panic IndexOutOfRange, replicate (Suc k)
                (ZoneOperationsGet project (lastComponent (Operation_Zone op)) (Operation_Name op))))"
  using waitCompletion_ends [OF assms(1,2)] assms(3) by simp


lemma example_polls:
  "\<forall>j<2. \<exists>st. ZoneOperations_Get example_cloud j ''proj''
       (lastComponent (Operation_Zone example_operation)) (Operation_Name example_operation)
       = Inr st \<and> Status st \<noteq> ''DONE''"
  by (simp add: example_cloud_def)

lemma example_poll_done:
  "ZoneOperations_Get example_cloud 2 ''proj''
       (lastComponent (Operation_Zone example_operation)) (Operation_Name example_operation)
     = Inr (example_operation\<lparr>Status := ''DONE''\<rparr>)"
  by (simp add: example_cloud_def)

lemma example_wait:
  "waitCompletion example_cloud ''proj'' example_operation =
     Some (Ok (), replicate 3 (ZoneOperationsGet ''proj'' ''us-east1-b'' ''operation-1''))"
  using waitCompletion_ends [OF example_polls example_poll_done]
  by (simp add: example_operation_def lastComponent_def numeral_3_eq_3)

text \<open>
  Claim C3, at a terminal operation whose error record is present and lists no error:
  the status is terminal and the error list is empty, and \<open>waitCompletion\<close> does not
  return success. It indexes the first entry of the empty list, which panics. (With no
  error record it returns success, with a first entry it returns that entry's message,
  and it never returns while every poll is pending or running: the lemmas above.)
\<close>

theorem waitCompletion_empty_error_record:
  "waitCompletion example_cloud_no_entry ''proj'' example_operation =
     Some (Panic IndexOutOfRange, [ZoneOperationsGet ''proj'' ''us-east1-b'' ''operation-1''])"
proof -
  have "ZoneOperations_Get example_cloud_no_entry 0 ''proj''
       (lastComponent (Operation_Zone example_operation)) (Operation_Name example_operation)
     = Inr (example_operation\<lparr>Status := ''DONE'', Error := Some []\<rparr>)"
    by (simp add: example_cloud_no_entry_def)
  from waitCompletion_ends [of 0, OF _ this] show ?thesis
    by (simp add: example_operation_def lastComponent_def)
qed

subsection \<open>mapToGCE\<close>

lemma mapToGCE_OkI:
  assumes "Zone e = Some zone" and "Image e = Some img"
    and "BuildImageURL project img = Ok sourceImage"
    and "mapToGCE_disks x project (entries (Disks e))
           [\<lparr>InitializeParams = Some \<lparr>SourceImage = sourceImage\<rparr>, Boot = True,
             DeviceName = ''persistent-disks-0'', Index = 0, AutoDelete = True,
             Mode = ''READ_WRITE'', Type = ''PERSISTENT'', Source = []\<rparr>] = Ok disks"
    and "mapToGCE_networkInterfaces x e project resolver = Ok networkInterfaces"
    and "mapToGCE_metadataItems (entries (Metadata e)) [] = Ok metadataItems"
    and "CanIPForward e = Some canIPForward" and "MachineType e = Some machineType"
    and "Name e = Some name"
  shows "mapToGCE x e project resolver =
     Ok \<lparr>CanIpForward = canIPForward,
         gce_Disks = disks,
         gce_MachineType = BuildMachineTypeURL project zone machineType,
         gce_Metadata = Some \<lparr>Items = metadataItems, Fingerprint = []\<rparr>,
         gce_Name = name,
         NetworkInterfaces = networkInterfaces,
         Scheduling = Some
           (if BoolValue (Preemptible e)
            then \<lparr>AutomaticRestart = False, OnHostMaintenance = ''TERMINATE'',
                  Scheduling_Preemptible = True\<rparr>
            else \<lparr>AutomaticRestart = True, OnHostMaintenance = ''MIGRATE'',
                  Scheduling_Preemptible = False\<rparr>),
         ServiceAccounts =
           (case Scopes e of
              None \<Rightarrow> []
            | Some scopes \<Rightarrow>
                [\<lparr>Email = ''default'', ServiceAccount_Scopes = map expandScopeAlias scopes\<rparr>]),
         gce_Tags = (case Tags e of None \<Rightarrow> None | Some items \<Rightarrow> Some \<lparr>Tags_Items = items\<rparr>),
         gce_Zone = []\<rparr>"
  unfolding mapToGCE_def using assms by (simp add: Let_def)

lemma mapToGCE_OkE:
  assumes "mapToGCE x e project resolver = Ok i"
  obtains zone img sourceImage disks networkInterfaces metadataItems canIPForward
    machineType name
  where "Zone e = Some zone" and "Image e = Some img"
    and "BuildImageURL project img = Ok sourceImage"
    and "mapToGCE_disks x project (entries (Disks e))
           [\<lparr>InitializeParams = Some \<lparr>SourceImage = sourceImage\<rparr>, Boot = True,
             DeviceName = ''persistent-disks-0'', Index = 0, AutoDelete = True,
             Mode = ''READ_WRITE'', Type = ''PERSISTENT'', Source = []\<rparr>] = Ok disks"
    and "mapToGCE_networkInterfaces x e project resolver = Ok networkInterfaces"
    and "mapToGCE_metadataItems (entries (Metadata e)) [] = Ok metadataItems"
    and "CanIPForward e = Some canIPForward" and "MachineType e = Some machineType"
    and "Name e = Some name"
    and "gce_Disks i = disks" and "NetworkInterfaces i = networkInterfaces"
    and "gce_Metadata i = Some \<lparr>Items = metadataItems, Fingerprint = []\<rparr>"
    and "gce_Name i = name"
  using assms unfolding mapToGCE_def Let_def andThen_Ok_iff deref_Ok_iff
  by (elim exE conjE) (rule that, assumption+, auto)


lemma mapToGCE_disks_defined:
  "list_all (\<lambda>kv. PersistentDisk_URL x (snd kv) project \<noteq> None) ds \<Longrightarrow>
     \<exists>disks. mapToGCE_disks x project ds acc = Ok disks"
proof (induction ds arbitrary: acc)
  case Nil
  then show ?case by simp
next
  case (Cons kv ds)
  obtain name disk where kv: "kv = (name, disk)" by (cases kv)
  with Cons.prems obtain url where url: "PersistentDisk_URL x disk project = Some url"
    by auto
  from Cons.prems have "list_all (\<lambda>kv. PersistentDisk_URL x (snd kv) project \<noteq> None) ds"
    by simp
  from Cons.IH [OF this] show ?case using kv url by simp
qed


lemma mapToGCE_metadataItems_defined:
  "list_all (\<lambda>kv. \<exists>v. ResourceAsString (snd kv) = Inr v) m \<Longrightarrow>
     \<exists>items. mapToGCE_metadataItems m acc = Ok items"
proof (induction m arbitrary: acc)
  case Nil
  then show ?case by simp
next
  case (Cons kv m)
  obtain key r where kv: "kv = (key, r)" by (cases kv)
  with Cons.prems obtain v where v: "ResourceAsString r = Inr v" by auto
  from Cons.prems have "list_all (\<lambda>kv. \<exists>v. ResourceAsString (snd kv) = Inr v) m" by simp
  from Cons.IH [OF this] show ?case using kv v by simp
qed

lemma mapToGCE_networkInterfaces_no_IPAddress:
  "IPAddress e = None \<Longrightarrow> mapToGCE_networkInterfaces x e project resolver = Ok []"
  by (simp add: mapToGCE_networkInterfaces_def)

lemma mapToGCE_Network_Subnet_unread:
  "IPAddress e = None \<Longrightarrow>
     mapToGCE x (e\<lparr>Network := network, Subnet := subnet\<rparr>) project resolver =
     mapToGCE x e project resolver"
  by (simp add: mapToGCE_def mapToGCE_networkInterfaces_def)






lemma mapToGCE_example:
  "mapToGCE example_externals example_desired ''proj'' (\<lambda>ip. Ok (Address ip)) = Ok example_payload"
  by (simp add: mapToGCE_def example_externals_def example_desired_def example_payload_def
      mapToGCE_networkInterfaces_def BuildImageURL_def BuildMachineTypeURL_def
      expandScopeAlias_def)





text \<open>
  Claim C10. For an instance whose \<open>IPAddress\<close> is nil, \<open>mapToGCE\<close> reads neither
  \<open>Network\<close> nor \<open>Subnet\<close>: it gives the same result whatever they hold, every payload
  it produces has an empty network-interface list, and it does produce one when the
  scalar fields are set, the image spec has one or two tokens, the URL of every disk is
  defined and every metadata entry renders.
\<close>

theorem mapToGCE_without_IPAddress:
  assumes "IPAddress e = None"
  shows "mapToGCE x (e\<lparr>Network := network, Subnet := subnet\<rparr>) project resolver
           = mapToGCE x e project resolver
     \<and> (\<forall>i. mapToGCE x e project resolver = Ok i \<longrightarrow> NetworkInterfaces i = [])
     \<and> (Zone e = Some zone \<and> Image e = Some img \<and> CanIPForward e = Some canIPForward
          \<and> MachineType e = Some machineType \<and> Name e = Some name
          \<and> BuildImageURL project img = Ok sourceImage
          \<and> list_all (\<lambda>kv. PersistentDisk_URL x (snd kv) project \<noteq> None) (entries (Disks e))
          \<and> list_all (\<lambda>kv. \<exists>v. ResourceAsString (snd kv) = Inr v) (entries (Metadata e)) \<longrightarrow>
         (\<exists>i. mapToGCE x e project resolver = Ok i \<and> NetworkInterfaces i = []))"
proof (intro conjI allI impI)
  show "mapToGCE x (e\<lparr>Network := network, Subnet := subnet\<rparr>) project resolver
           = mapToGCE x e project resolver"
    using assms by (rule mapToGCE_Network_Subnet_unread)
next
  fix i assume "mapToGCE x e project resolver = Ok i"
  then obtain nis where "mapToGCE_networkInterfaces x e project resolver = Ok nis"
    "NetworkInterfaces i = nis" by (rule mapToGCE_OkE)
  with assms show "NetworkInterfaces i = []"
    by (simp add: mapToGCE_networkInterfaces_no_IPAddress)
next
  assume a: "Zone e = Some zone \<and> Image e = Some img \<and> CanIPForward e = Some canIPForward
          \<and> MachineType e = Some machineType \<and> Name e = Some name
          \<and> BuildImageURL project img = Ok sourceImage
          \<and> list_all (\<lambda>kv. PersistentDisk_URL x (snd kv) project \<noteq> None) (entries (Disks e))
          \<and> list_all (\<lambda>kv. \<exists>v. ResourceAsString (snd kv) = Inr v) (entries (Metadata e))"
  then obtain disks where
    disks: "mapToGCE_disks x project (entries (Disks e))
           [\<lparr>InitializeParams = Some \<lparr>SourceImage = sourceImage\<rparr>, Boot = True,
             DeviceName = ''persistent-disks-0'', Index = 0, AutoDelete = True,
             Mode = ''READ_WRITE'', Type = ''PERSISTENT'', Source = []\<rparr>] = Ok disks"
    using mapToGCE_disks_defined by blast
  from a obtain items where
    items: "mapToGCE_metadataItems (entries (Metadata e)) [] = Ok items"
    using mapToGCE_metadataItems_defined by blast
  have nis: "mapToGCE_networkInterfaces x e project resolver = Ok []"
    using assms by (rule mapToGCE_networkInterfaces_no_IPAddress)
  from a have f: "Zone e = Some zone" "Image e = Some img"
    "BuildImageURL project img = Ok sourceImage" "CanIPForward e = Some canIPForward"
    "MachineType e = Some machineType" "Name e = Some name" by simp_all
  from mapToGCE_OkI [OF f(1,2,3) disks nis items f(4,5,6)]
  show "\<exists>i. mapToGCE x e project resolver = Ok i \<and> NetworkInterfaces i = []" by simp
qed

theorem mapToGCE_without_IPAddress_witness:
  "IPAddress example_desired = None
   \<and> Network example_desired = Some \<lparr>Network_Name = Some ''default''\<rparr>
   \<and> mapToGCE example_externals example_desired ''proj'' (\<lambda>ip. Ok (Address ip)) = Ok example_payload
   \<and> NetworkInterfaces example_payload = []
   \<and> mapToGCE example_externals (example_desired\<lparr>Network := None, Subnet := None\<rparr>) ''proj''
        (\<lambda>ip. Ok (Address ip)) = Ok example_payload"
proof -
  have ip: "IPAddress example_desired = None" by (simp add: example_desired_def)
  have nw: "Network example_desired = Some \<lparr>Network_Name = Some ''default''\<rparr>"
    by (simp add: example_desired_def)
  note T = mapToGCE_without_IPAddress [OF ip, where x = example_externals and project = "''proj''"
      and resolver = "\<lambda>ip. Ok (Address ip)"]
  have "\<forall>i. mapToGCE example_externals example_desired ''proj'' (\<lambda>ip. Ok (Address ip)) = Ok i
          \<longrightarrow> NetworkInterfaces i = []"
    by (rule T [THEN conjunct2, THEN conjunct1])
  then have none: "NetworkInterfaces example_payload = []"
    using mapToGCE_example by blast
  have "mapToGCE example_externals (example_desired\<lparr>Network := None, Subnet := None\<rparr>) ''proj''
        (\<lambda>ip. Ok (Address ip))
      = mapToGCE example_externals example_desired ''proj'' (\<lambda>ip. Ok (Address ip))"
    by (rule T [THEN conjunct1])
  then have unread: "mapToGCE example_externals
        (example_desired\<lparr>Network := None, Subnet := None\<rparr>) ''proj''
        (\<lambda>ip. Ok (Address ip)) = Ok example_payload"
    by (simp only: mapToGCE_example)
  show ?thesis by (intro conjI ip nw mapToGCE_example none unread)
qed

subsection \<open>RenderGCE\<close>

lemma RenderGCE_mapping_fails:
  assumes "Zone e = Some zone"
    and "mapToGCE x e (Project cloud) (\<lambda>ip. Ok (Address ip)) = Err err"
  shows "RenderGCE x cloud a e changes = Some (Err err, changes, [])"
  using assms by (simp add: RenderGCE_def)


lemma RenderGCE_update:
  assumes "Zone e = Some zone"
    and "mapToGCE x e (Project cloud) (\<lambda>ip. Ok (Address ip)) = Ok i"
    and "gce_Metadata i = Some metadata"
    and "Metadata changes = Some m"
    and "Instances_SetMetadata cloud (Project cloud) zone (gce_Name i)
           (metadata\<lparr>Fingerprint := metadataFingerprint a\<rparr>) = Inr op"
  shows "RenderGCE x cloud (Some a) e changes =
     (case waitCompletion cloud (Project cloud) op of
        None \<Rightarrow> None
      | Some (ended, polls) \<Rightarrow>
          Some (case ended of
                  Ok u \<Rightarrow>
                    if isZero (changes\<lparr>Metadata := None\<rparr>) then Ok ()
                    else Err (CannotApplyChanges (changes\<lparr>Metadata := None\<rparr>))
                | Err err \<Rightarrow> Err (ErrorSettingMetadata err)
                | Panic p \<Rightarrow> Panic p
                | Exit msg \<Rightarrow> Exit msg,
                case ended of Ok u \<Rightarrow> changes\<lparr>Metadata := None\<rparr> | _ \<Rightarrow> changes,
                SetMetadata (Project cloud) zone (gce_Name i)
                  (metadata\<lparr>Fingerprint := metadataFingerprint a\<rparr>) # polls))"
  using assms
  by (simp add: RenderGCE_def Let_def split: option.splits prod.splits result.splits)

lemma RenderGCE_no_metadata:
  assumes "Zone e = Some zone"
    and "mapToGCE x e (Project cloud) (\<lambda>ip. Ok (Address ip)) = Ok i"
    and "Metadata changes = None"
  shows "RenderGCE x cloud (Some a) e changes =
     Some (if isZero changes then Ok () else Err (CannotApplyChanges changes), changes, [])"
  using assms by (simp add: RenderGCE_def)

lemma example_update:
  "RenderGCE example_externals example_cloud (Some example_actual) example_desired changes =
     (if Metadata changes = None
      then Some (if isZero changes then Ok () else Err (CannotApplyChanges changes), changes, [])
      else Some (if isZero (changes\<lparr>Metadata := None\<rparr>) then Ok ()
                 else Err (CannotApplyChanges (changes\<lparr>Metadata := None\<rparr>)),
                 changes\<lparr>Metadata := None\<rparr>,
                 SetMetadata ''proj'' ''us-east1-b'' ''master''
                   \<lparr>Items = [\<lparr>Key = ''role'', Value = Some ''master''\<rparr>], Fingerprint = ''f1''\<rparr>
                 # replicate 3 (ZoneOperationsGet ''proj'' ''us-east1-b'' ''operation-1'')))"
proof -
  have z: "Zone example_desired = Some ''us-east1-b''" by (simp add: example_desired_def)
  have p: "Project example_cloud = ''proj''" by (simp add: example_cloud_def)
  have m: "mapToGCE example_externals example_desired (Project example_cloud)
             (\<lambda>ip. Ok (Address ip)) = Ok example_payload"
    using mapToGCE_example by (simp add: p)
  have md: "gce_Metadata example_payload =
      Some \<lparr>Items = [\<lparr>Key = ''role'', Value = Some ''master''\<rparr>], Fingerprint = []\<rparr>"
    by (simp add: example_payload_def)
  have s: "Instances_SetMetadata example_cloud (Project example_cloud) ''us-east1-b''
      (gce_Name example_payload)
      (\<lparr>Items = [\<lparr>Key = ''role'', Value = Some ''master''\<rparr>], Fingerprint = []\<rparr>
         \<lparr>Fingerprint := metadataFingerprint example_actual\<rparr>) = Inr example_operation"
    by (simp add: example_cloud_def)
  show ?thesis
  proof (cases "Metadata changes")
    case None
    with RenderGCE_no_metadata [OF z m None, of example_actual] show ?thesis by simp
  next
    case (Some c)
    with RenderGCE_update [OF z m md Some s] example_wait show ?thesis
      by (simp add: p example_payload_def example_actual_def)
  qed
qed



text \<open>
  Claim C1, amended. For an existing instance and a desired instance that maps to a
  payload, applying a diff with \<open>Metadata\<close> and some other field set issues the
  set-metadata call first, with the fingerprint of the actual instance, and waits for
  it; when that update completes without error, \<open>RenderGCE\<close> clears \<open>Metadata\<close> in the
  diff and fails with the unsupported-change error that carries the remaining fields.
  The metadata update has reached the backend by then.
\<close>

theorem RenderGCE_metadata_and_more:
  assumes "Zone e = Some zone"
    and "mapToGCE x e (Project cloud) (\<lambda>ip. Ok (Address ip)) = Ok i"
    and "gce_Metadata i = Some metadata"
    and "Metadata changes = Some m"
    and "\<not> isZero (changes\<lparr>Metadata := None\<rparr>)"
    and "Instances_SetMetadata cloud (Project cloud) zone (gce_Name i)
           (metadata\<lparr>Fingerprint := metadataFingerprint a\<rparr>) = Inr op"
    and "\<forall>j<k. \<exists>st. ZoneOperations_Get cloud j (Project cloud)
                        (lastComponent (Operation_Zone op)) (Operation_Name op) = Inr st
                     \<and> Status st \<noteq> ''DONE''"
    and "ZoneOperations_Get cloud k (Project cloud) (lastComponent (Operation_Zone op))
           (Operation_Name op) = Inr status"
    and "Status status = ''DONE''" and "Error status = None"
  shows "RenderGCE x cloud (Some a) e changes =
     Some (Err (CannotApplyChanges (changes\<lparr>Metadata := None\<rparr>)),
           changes\<lparr>Metadata := None\<rparr>,
           SetMetadata (Project cloud) zone (gce_Name i)
             (metadata\<lparr>Fingerprint := metadataFingerprint a\<rparr>)
           # replicate (Suc k)
               (ZoneOperationsGet (Project cloud) (lastComponent (Operation_Zone op))
                  (Operation_Name op)))"
proof -
  have "waitCompletion cloud (Project cloud) op =
     Some (Ok (), replicate (Suc k)
       (ZoneOperationsGet (Project cloud) (lastComponent (Operation_Zone op)) (Operation_Name op)))"
    using waitCompletion_ends [OF assms(7,8)] assms(9,10) by simp
  with RenderGCE_update [OF assms(1,2,3,4,6)] assms(5) show ?thesis by simp
qed

theorem RenderGCE_metadata_and_more_witness:
  "Metadata example_changes_tags = Some [(''role'', NewStringResource ''master'')]
   \<and> Tags example_changes_tags = Some [''kubernetes'', ''etcd'']
   \<and> RenderGCE example_externals example_cloud (Some example_actual) example_desired
     example_changes_tags =
   Some (Err (CannotApplyChanges (example_changes_tags\<lparr>Metadata := None\<rparr>)),
         example_changes_tags\<lparr>Metadata := None\<rparr>,
         SetMetadata ''proj'' ''us-east1-b'' ''master''
            \<lparr>Items = [\<lparr>Key = ''role'', Value = Some ''master''\<rparr>], Fingerprint = ''f1''\<rparr>
         # replicate 3 (ZoneOperationsGet ''proj'' ''us-east1-b'' ''operation-1''))"
proof -
  have z: "Zone example_desired = Some ''us-east1-b''" by (simp add: example_desired_def)
  have p: "Project example_cloud = ''proj''" by (simp add: example_cloud_def)
  have m: "mapToGCE example_externals example_desired (Project example_cloud)
             (\<lambda>ip. Ok (Address ip)) = Ok example_payload"
    using mapToGCE_example by (simp add: p)
  have md: "gce_Metadata example_payload =
      Some \<lparr>Items = [\<lparr>Key = ''role'', Value = Some ''master''\<rparr>], Fingerprint = []\<rparr>"
    by (simp add: example_payload_def)
  have c: "Metadata example_changes_tags = Some [(''role'', NewStringResource ''master'')]"
    by (simp add: example_changes_tags_def example_changes_metadata_def)
  have nz: "\<not> isZero (example_changes_tags\<lparr>Metadata := None\<rparr>)"
    by (simp add: example_changes_tags_def example_changes_metadata_def isZero_def
        zeroInstance_def)
  have s: "Instances_SetMetadata example_cloud (Project example_cloud) ''us-east1-b''
      (gce_Name example_payload)
      (\<lparr>Items = [\<lparr>Key = ''role'', Value = Some ''master''\<rparr>], Fingerprint = []\<rparr>
         \<lparr>Fingerprint := metadataFingerprint example_actual\<rparr>) = Inr example_operation"
    by (simp add: example_cloud_def)
  have polls: "\<forall>j<2. \<exists>st. ZoneOperations_Get example_cloud j (Project example_cloud)
       (lastComponent (Operation_Zone example_operation)) (Operation_Name example_operation)
       = Inr st \<and> Status st \<noteq> ''DONE''"
    using example_polls by (simp add: p)
  have fin: "ZoneOperations_Get example_cloud 2 (Project example_cloud)
       (lastComponent (Operation_Zone example_operation)) (Operation_Name example_operation)
     = Inr (example_operation\<lparr>Status := ''DONE''\<rparr>)"
    using example_poll_done by (simp add: p)
  have st: "Status (example_operation\<lparr>Status := ''DONE''\<rparr>) = ''DONE''"
    "Error (example_operation\<lparr>Status := ''DONE''\<rparr>) = None"
    by (simp_all add: example_operation_def)
  from RenderGCE_metadata_and_more [OF z m md c nz s polls fin st] c show ?thesis
    by (simp add: p example_payload_def example_actual_def example_operation_def
        lastComponent_def numeral_3_eq_3 example_changes_tags_def)
qed

text \<open>As claim C1 is stated it fails: the pass that ends in the unsupported-change error
  has issued the set-metadata call and polled its operation to completion.\<close>

theorem RenderGCE_metadata_and_more_counterexample:
  "RenderGCE example_externals example_cloud (Some example_actual) example_desired
     example_changes_tags =
   Some (Err (CannotApplyChanges (zeroInstance\<lparr>Tags := Some [''kubernetes'', ''etcd'']\<rparr>)),
         zeroInstance\<lparr>Tags := Some [''kubernetes'', ''etcd'']\<rparr>,
         [SetMetadata ''proj'' ''us-east1-b'' ''master''
            \<lparr>Items = [\<lparr>Key = ''role'', Value = Some ''master''\<rparr>], Fingerprint = ''f1''\<rparr>,
          ZoneOperationsGet ''proj'' ''us-east1-b'' ''operation-1'',
          ZoneOperationsGet ''proj'' ''us-east1-b'' ''operation-1'',
          ZoneOperationsGet ''proj'' ''us-east1-b'' ''operation-1''])"
  by (simp add: example_update example_changes_tags_def example_changes_metadata_def
      zeroInstance_def isZero_def numeral_3_eq_3)



end
